theory Spec2Isabelle
  imports Complex_Main "HOL-Library.Sublist"
begin

section \<open>LocaLoop: the nearby-places discovery workflow\<close>

text \<open>
  The two screens that query the places provider are \<^verbatim>\<open>MapsScreen\<close>
  (\<^verbatim>\<open>src/app/(tabs)/maps.tsx\<close>) and \<^verbatim>\<open>DashboardScreen\<close>
  (\<^verbatim>\<open>src/app/(tabs)/profile.tsx\<close>). Both are React function components: the state
  of a screen is the tuple of its \<^verbatim>\<open>useState\<close> cells, an event handler runs against
  the values it closed over when the screen was last rendered, and every
  \<^verbatim>\<open>setX(v)\<close> call overwrites one cell. An \<^verbatim>\<open>async\<close> function is split at its
  \<^verbatim>\<open>await\<close>: the part before it (\<open>_start\<close>) runs when the handler is called, the part
  after it (\<open>_resume\<close>) runs when the awaited promise settles, on whatever the state
  is by then.
\<close>

subsection \<open>Data model\<close>

text \<open>JavaScript numbers are only copied around by this code, never computed with.\<close>

type_synonym number = real

record Place =
  place_id :: string
  name :: string
  vicinity :: string
  lat :: number
  lng :: number
  rating :: "number option"
  types :: "string list"
  opening_hours :: "bool option"

record Coords =
  latitude :: number
  longitude :: number

record LocationCoords = Coords +
  latitudeDelta :: number
  longitudeDelta :: number

text \<open>The query string of the nearby-search URL, one field per parameter.\<close>

record request =
  req_lat :: number
  req_lng :: number
  req_radius :: nat
  req_type :: string
  req_key :: string

text \<open>The parsed JSON body; \<open>results\<close> is \<open>None\<close> when the body has no such array.\<close>

record response =
  status :: string
  results :: "Place list option"

text \<open>A settled promise: fulfilled with a value, or rejected (the \<^verbatim>\<open>await\<close> throws).\<close>

datatype 'a outcome = Resolved 'a | Rejected

datatype permission_status = granted | denied | undetermined

datatype effect =
    Fetch request
  | Alert string string
  | ConsoleError string
  | AnimateToRegion LocationCoords

fun is_Fetch :: "effect \<Rightarrow> bool" where
  "is_Fetch (Fetch r) = True"
| "is_Fetch e = False"

fun is_Alert :: "effect \<Rightarrow> bool" where
  "is_Alert (Alert t m) = True"
| "is_Alert e = False"

definition GOOGLE_PLACES_API_KEY :: string where
  "GOOGLE_PLACES_API_KEY = ''process.env.GOOGLE_PLACES_API_KEY''"

subsection \<open>String operations used by the screens\<close>

text \<open>
  A string is the list of its UTF-16 code units, here the code units below 256 (Basic
  Latin and Latin-1), one \<open>char\<close> each. On these \<^verbatim>\<open>String.prototype.toLowerCase\<close>
  works unit by unit: it adds \<open>0x20\<close> to the capitals \<open>A\<close> to \<open>Z\<close> and to the
  Latin-1 capitals \<open>0xC0\<close> to \<open>0xDE\<close> (the multiplication sign \<open>0xD7\<close> apart) and
  keeps every other unit. \<^verbatim>\<open>String.prototype.trim\<close> strips white space and line
  terminators: tab, line feed, vertical tab, form feed, carriage return, space and
  the no-break space \<open>0xA0\<close>.
\<close>

definition upperCase_letters :: string where
  "upperCase_letters =
     ''ABCDEFGHIJKLMNOPQRSTUVWXYZ'' @
       [CHR 0xC0, CHR 0xC1, CHR 0xC2, CHR 0xC3, CHR 0xC4, CHR 0xC5, CHR 0xC6, CHR
        0xC7, CHR 0xC8, CHR 0xC9, CHR 0xCA, CHR 0xCB, CHR 0xCC, CHR 0xCD, CHR 0xCE,
        CHR 0xCF, CHR 0xD0, CHR 0xD1, CHR 0xD2, CHR 0xD3, CHR 0xD4, CHR 0xD5, CHR
        0xD6, CHR 0xD8, CHR 0xD9, CHR 0xDA, CHR 0xDB, CHR 0xDC, CHR 0xDD, CHR 0xDE]"

definition lowerCase_letters :: string where
  "lowerCase_letters =
     ''abcdefghijklmnopqrstuvwxyz'' @
       [CHR 0xE0, CHR 0xE1, CHR 0xE2, CHR 0xE3, CHR 0xE4, CHR 0xE5, CHR 0xE6, CHR
        0xE7, CHR 0xE8, CHR 0xE9, CHR 0xEA, CHR 0xEB, CHR 0xEC, CHR 0xED, CHR 0xEE,
        CHR 0xEF, CHR 0xF0, CHR 0xF1, CHR 0xF2, CHR 0xF3, CHR 0xF4, CHR 0xF5, CHR
        0xF6, CHR 0xF8, CHR 0xF9, CHR 0xFA, CHR 0xFB, CHR 0xFC, CHR 0xFD, CHR 0xFE]"

definition toLowerCase_char :: "char \<Rightarrow> char" where
  "toLowerCase_char c =
     (case map_of (zip upperCase_letters lowerCase_letters) c of
        Some l \<Rightarrow> l
      | None \<Rightarrow> c)"

definition toLowerCase :: "string \<Rightarrow> string" where
  "toLowerCase s = map toLowerCase_char s"

definition isWhiteSpace :: "char \<Rightarrow> bool" where
  "isWhiteSpace c =
     (c \<in> set [CHR 0x09, CHR 0x0A, CHR 0x0B, CHR 0x0C, CHR 0x0D, CHR '' '', CHR 0xA0])"

definition trim :: "string \<Rightarrow> string" where
  "trim s = rev (dropWhile isWhiteSpace (rev (dropWhile isWhiteSpace s)))"

text \<open>\<open>includes_str s q\<close> is \<^verbatim>\<open>s.includes(q)\<close>: \<open>q\<close> starts at some position of \<open>s\<close>.\<close>

fun includes_str :: "string \<Rightarrow> string \<Rightarrow> bool" where
  "includes_str [] q = (q = [])"
| "includes_str (c # cs) q = (prefix q (c # cs) \<or> includes_str cs q)"

subsection \<open>MapsScreen\<close>

datatype place_type = restaurant | cafe

fun type_token :: "place_type \<Rightarrow> string" where
  "type_token restaurant = ''restaurant''"
| "type_token cafe = ''cafe''"

record MapsState =
  location :: "LocationCoords option"
  loading :: bool
  errorMsg :: "string option"
  places :: "Place list"
  loadingPlaces :: bool
  selectedType :: place_type

definition MapsState_init :: MapsState where
  "MapsState_init =
     \<lparr>location = None, loading = True, errorMsg = None, places = [],
      loadingPlaces = False, selectedType = restaurant\<rparr>"

text \<open>\<^verbatim>\<open>fetchNearbyPlaces\<close> up to \<^verbatim>\<open>await fetch(url)\<close>.\<close>

definition fetchNearbyPlaces_start ::
  "number \<Rightarrow> number \<Rightarrow> place_type \<Rightarrow> MapsState \<Rightarrow> MapsState \<times> effect list" where
  "fetchNearbyPlaces_start la lo ty s =
     (s\<lparr>loadingPlaces := True\<rparr>,
      [Fetch \<lparr>req_lat = la, req_lng = lo, req_radius = 5000,
              req_type = type_token ty, req_key = GOOGLE_PLACES_API_KEY\<rparr>])"

text \<open>
  \<^verbatim>\<open>fetchNearbyPlaces\<close> from the settled fetch on. \<open>Rejected\<close> is a failed fetch or an
  unparsable body; an \<open>OK\<close> body without a \<open>results\<close> array makes \<^verbatim>\<open>.slice\<close> throw
  inside the \<^verbatim>\<open>try\<close>. The \<^verbatim>\<open>finally\<close> block runs on every path.
\<close>

definition fetchNearbyPlaces_resume ::
  "response outcome \<Rightarrow> MapsState \<Rightarrow> MapsState \<times> effect list" where
  "fetchNearbyPlaces_resume out s =
     (case out of
        Resolved data \<Rightarrow>
          (if status data = ''OK'' then
             (case results data of
                Some rs \<Rightarrow> (s\<lparr>places := take 20 rs, loadingPlaces := False\<rparr>, [])
              | None \<Rightarrow>
                  (s\<lparr>loadingPlaces := False\<rparr>,
                   [ConsoleError ''Fetch places error:'',
                    Alert ''Error'' ''Failed to fetch nearby places'']))
           else
             (s\<lparr>loadingPlaces := False\<rparr>,
              [ConsoleError ''Places API error:'',
               Alert ''Error'' ''Failed to fetch nearby places. Please check your API key.'']))
      | Rejected \<Rightarrow>
          (s\<lparr>loadingPlaces := False\<rparr>,
           [ConsoleError ''Fetch places error:'',
            Alert ''Error'' ''Failed to fetch nearby places'']))"

definition handleTypeChange :: "place_type \<Rightarrow> MapsState \<Rightarrow> MapsState \<times> effect list" where
  "handleTypeChange ty s =
     (let s1 = s\<lparr>selectedType := ty\<rparr> in
      case location s of
        Some loc \<Rightarrow> fetchNearbyPlaces_start (latitude loc) (longitude loc) ty s1
      | None \<Rightarrow> (s1, []))"

definition mkCoords :: "Coords \<Rightarrow> LocationCoords" where
  "mkCoords c =
     \<lparr>latitude = latitude c, longitude = longitude c,
      latitudeDelta = 5 / 100, longitudeDelta = 5 / 100\<rparr>"

text \<open>
  \<^verbatim>\<open>centerOnUserLocation\<close> from the settled position request on. The function is a
  closure of the render in which the recenter button was pressed: \<open>closed_type\<close> is the
  \<^verbatim>\<open>selectedType\<close> of that render, \<open>s\<close> the state when the request settles.
\<close>

definition centerOnUserLocation ::
  "place_type \<Rightarrow> Coords outcome \<Rightarrow> MapsState \<Rightarrow> MapsState \<times> effect list" where
  "centerOnUserLocation closed_type pos s =
     (case pos of
        Resolved c \<Rightarrow>
          (let coords = mkCoords c;
               s1 = s\<lparr>location := Some coords\<rparr>;
               (s2, es) = fetchNearbyPlaces_start (latitude coords) (longitude coords)
                            closed_type s1
           in (s2, AnimateToRegion coords # es))
      | Rejected \<Rightarrow> (s, [Alert ''Error'' ''Failed to get your location'']))"

text \<open>
  The body of the screen's \<^verbatim>\<open>useEffect\<close>: the permission request settles with
  \<open>perm\<close>; the position request, made only after a grant, settles with \<open>pos\<close>. The
  body is a closure of the render that started it: \<open>closed_type\<close> is the
  \<^verbatim>\<open>selectedType\<close> of that render, \<open>s\<close> the state when the last request settles.
\<close>

definition mountEffect ::
  "place_type \<Rightarrow> permission_status outcome \<Rightarrow> Coords outcome \<Rightarrow> MapsState \<Rightarrow>
   MapsState \<times> effect list" where
  "mountEffect closed_type perm pos s =
     (case perm of
        Rejected \<Rightarrow>
          (s\<lparr>errorMsg := Some ''Failed to get location'', loading := False\<rparr>,
           [ConsoleError ''Location error:''])
      | Resolved st \<Rightarrow>
          (if st \<noteq> granted then
             (s\<lparr>errorMsg := Some ''Permission to access location was denied'',
                loading := False\<rparr>, [])
           else
             (case pos of
                Rejected \<Rightarrow>
                  (s\<lparr>errorMsg := Some ''Failed to get location'', loading := False\<rparr>,
                   [ConsoleError ''Location error:''])
              | Resolved c \<Rightarrow>
                  (let coords = mkCoords c;
                       s1 = s\<lparr>location := Some coords, loading := False\<rparr>
                   in fetchNearbyPlaces_start (latitude coords) (longitude coords)
                        closed_type s1))))"

text \<open>What the screen renders: the three \<^verbatim>\<open>return\<close>s of the component, in order.\<close>

datatype view =
    LoadingView
  | ErrorView (errorText: string) (retryButtonText: string)
  | MainView "Place list"

definition truthy :: "string option \<Rightarrow> bool" where
  "truthy m = (case m of None \<Rightarrow> False | Some t \<Rightarrow> t \<noteq> [])"

definition render :: "MapsState \<Rightarrow> view" where
  "render s =
     (if loading s then LoadingView
      else if truthy (errorMsg s) \<or> location s = None then
        ErrorView (if truthy (errorMsg s) then the (errorMsg s)
                   else ''Unable to access your location'') ''Try Again''
      else MainView (places s))"

definition retryPress :: "MapsState \<Rightarrow> MapsState" where
  "retryPress s = s\<lparr>loading := True, errorMsg := None\<rparr>"

text \<open>
  A run of the screen: the effect body settling, or a press on a control. A control
  reacts only while the view that holds it is on screen (the retry button in the error
  view, the category buttons and the recenter button in the main view). In a run the
  effect body and a recenter are started in the render of the state the event finds
  and settle before the next event.
\<close>

datatype maps_event =
    EffectRun "permission_status outcome" "Coords outcome"
  | RetryPress
  | TypeChange place_type
  | Recenter "Coords outcome"

fun is_MainView :: "view \<Rightarrow> bool" where
  "is_MainView (MainView ps) = True"
| "is_MainView v = False"

fun is_ErrorView :: "view \<Rightarrow> bool" where
  "is_ErrorView (ErrorView t b) = True"
| "is_ErrorView v = False"

fun maps_step :: "maps_event \<Rightarrow> MapsState \<Rightarrow> MapsState \<times> effect list" where
  "maps_step (EffectRun perm pos) s = mountEffect (selectedType s) perm pos s"
| "maps_step RetryPress s = (if is_ErrorView (render s) then (retryPress s, []) else (s, []))"
| "maps_step (TypeChange ty) s =
     (if is_MainView (render s) then handleTypeChange ty s else (s, []))"
| "maps_step (Recenter pos) s =
     (if is_MainView (render s) then centerOnUserLocation (selectedType s) pos s
      else (s, []))"

fun maps_run :: "maps_event list \<Rightarrow> MapsState \<Rightarrow> MapsState \<times> effect list" where
  "maps_run [] s = (s, [])"
| "maps_run (e # es) s =
     (let (s1, out1) = maps_step e s; (s2, out2) = maps_run es s1 in (s2, out1 @ out2))"

text \<open>The permission request of an event, if it makes one, is answered with a refusal.\<close>

fun permission_denied :: "maps_event \<Rightarrow> bool" where
  "permission_denied (EffectRun (Resolved st) pos) = (st \<noteq> granted)"
| "permission_denied (EffectRun Rejected pos) = False"
| "permission_denied e = True"

subsection \<open>DashboardScreen\<close>

record DashboardState =
  searchQuery :: string
  selectedCategory :: string
  places_d :: "Place list"
  loading_d :: bool
  location_d :: "Coords option"

definition DashboardState_init :: DashboardState where
  "DashboardState_init =
     \<lparr>searchQuery = [], selectedCategory = ''all'', places_d = [],
      loading_d = False, location_d = None\<rparr>"

text \<open>The \<open>id\<close>s of the \<^verbatim>\<open>categories\<close> table, in its order.\<close>

definition categories :: "string list" where
  "categories = [''all'', ''restaurant'', ''cafe'', ''laundry'']"

text \<open>The \<^verbatim>\<open>switch (selectedCategory)\<close> of \<^verbatim>\<open>searchNearbyPlaces\<close>.\<close>

definition switch_type :: "string \<Rightarrow> string" where
  "switch_type c =
     (if c = ''restaurant'' then ''restaurant''
      else if c = ''cafe'' then ''cafe''
      else if c = ''laundry'' then ''laundry''
      else ''restaurant,cafe,laundry'')"

text \<open>Joining strings with a separator, to spell out the literal of the default branch.\<close>

fun join :: "string \<Rightarrow> string list \<Rightarrow> string" where
  "join sep [] = []"
| "join sep [x] = x"
| "join sep (x # y # ys) = x @ sep @ join sep (y # ys)"

text \<open>The predicate of the \<^verbatim>\<open>.filter\<close> call and the value of \<^verbatim>\<open>filteredPlaces\<close>.\<close>

definition place_matches :: "string \<Rightarrow> Place \<Rightarrow> bool" where
  "place_matches q place =
     (includes_str (toLowerCase (name place)) (toLowerCase q) \<or>
      includes_str (toLowerCase (vicinity place)) (toLowerCase q))"

definition filteredPlaces :: "string \<Rightarrow> Place list \<Rightarrow> Place list" where
  "filteredPlaces q rs = (if trim q \<noteq> [] then filter (place_matches q) rs else rs)"

text \<open>
  \<^verbatim>\<open>searchNearbyPlaces\<close> is a closure of one render: it reads \<^verbatim>\<open>location\<close>,
  \<^verbatim>\<open>selectedCategory\<close> and \<^verbatim>\<open>searchQuery\<close> from the state \<open>snap\<close> of that render and
  writes to the state \<open>s\<close> current when it runs.
\<close>

definition searchNearbyPlaces_start ::
  "DashboardState \<Rightarrow> DashboardState \<Rightarrow> DashboardState \<times> effect list" where
  "searchNearbyPlaces_start snap s =
     (case location_d snap of
        None \<Rightarrow>
          (s, [Alert ''Location required''
                 ''Please allow location access to search nearby places''])
      | Some loc \<Rightarrow>
          (s\<lparr>loading_d := True\<rparr>,
           [Fetch \<lparr>req_lat = latitude loc, req_lng = longitude loc, req_radius = 5000,
                   req_type = switch_type (selectedCategory snap),
                   req_key = GOOGLE_PLACES_API_KEY\<rparr>]))"

definition searchNearbyPlaces_resume ::
  "DashboardState \<Rightarrow> response outcome \<Rightarrow> DashboardState \<Rightarrow> DashboardState \<times> effect list" where
  "searchNearbyPlaces_resume snap out s =
     (case out of
        Resolved data \<Rightarrow>
          (if status data = ''OK'' then
             (case results data of
                Some rs \<Rightarrow>
                  (s\<lparr>places_d := take 15 (filteredPlaces (searchQuery snap) rs),
                     loading_d := False\<rparr>, [])
              | None \<Rightarrow>
                  (s\<lparr>loading_d := False\<rparr>,
                   [ConsoleError ''Search error:'',
                    Alert ''Error'' ''Failed to search nearby places'']))
           else
             (s\<lparr>loading_d := False\<rparr>,
              [ConsoleError ''Places API error:'',
               Alert ''Error'' ''Failed to search nearby places. Please check your API key.'']))
      | Rejected \<Rightarrow>
          (s\<lparr>loading_d := False\<rparr>,
           [ConsoleError ''Search error:'',
            Alert ''Error'' ''Failed to search nearby places'']))"

definition handleSearch :: "DashboardState \<Rightarrow> DashboardState \<times> effect list" where
  "handleSearch s =
     (if trim (searchQuery s) \<noteq> [] \<or> selectedCategory s \<noteq> ''all''
      then searchNearbyPlaces_start s s else (s, []))"

text \<open>
  The \<^verbatim>\<open>onPress\<close> of a category button, rendered from state \<open>s\<close>:
  \<^verbatim>\<open>setSelectedCategory(item.id); if (location) { searchNearbyPlaces(); }\<close>.
\<close>

definition categoryPress :: "string \<Rightarrow> DashboardState \<Rightarrow> DashboardState \<times> effect list" where
  "categoryPress item_id s =
     (let s1 = s\<lparr>selectedCategory := item_id\<rparr> in
      case location_d s of
        Some loc \<Rightarrow> searchNearbyPlaces_start s s1
      | None \<Rightarrow> (s1, []))"

definition clearPress :: "DashboardState \<Rightarrow> DashboardState" where
  "clearPress s = s\<lparr>places_d := []\<rparr>"

subsection \<open>Two overlapping queries\<close>

text \<open>
  Query A is issued, then query B, on the same screen; B's fetch settles first, A's
  afterwards. The functions return the state after both have settled.
\<close>

definition maps_race ::
  "(number \<times> number \<times> place_type) \<Rightarrow> (number \<times> number \<times> place_type) \<Rightarrow>
   response outcome \<Rightarrow> response outcome \<Rightarrow> MapsState \<Rightarrow> MapsState" where
  "maps_race A B respA respB s =
     (case (A, B) of
        ((la, lo, ty), (la', lo', ty')) \<Rightarrow>
          (let s1 = fst (fetchNearbyPlaces_start la lo ty s);
               s2 = fst (fetchNearbyPlaces_start la' lo' ty' s1);
               s3 = fst (fetchNearbyPlaces_resume respB s2)
           in fst (fetchNearbyPlaces_resume respA s3)))"

definition dashboard_race ::
  "DashboardState \<Rightarrow> DashboardState \<Rightarrow> response outcome \<Rightarrow> response outcome \<Rightarrow>
   DashboardState \<Rightarrow> DashboardState" where
  "dashboard_race snapA snapB respA respB s =
     (let s1 = fst (searchNearbyPlaces_start snapA s);
          s2 = fst (searchNearbyPlaces_start snapB s1);
          s3 = fst (searchNearbyPlaces_resume snapB respB s2)
      in fst (searchNearbyPlaces_resume snapA respA s3))"

text \<open>
  A query has failed when its fetch was rejected, when the body's status is not \<open>OK\<close>,
  or when an \<open>OK\<close> body carries no \<open>results\<close> array.
\<close>

fun query_failed :: "response outcome \<Rightarrow> bool" where
  "query_failed Rejected = True"
| "query_failed (Resolved data) = (status data \<noteq> ''OK'' \<or> results data = None)"

subsection \<open>Sample data\<close>

definition sample_place :: "string \<Rightarrow> string \<Rightarrow> string \<Rightarrow> Place" where
  "sample_place pid nm addr =
     \<lparr>place_id = pid, name = nm, vicinity = addr, lat = 1, lng = 2, rating = None,
      types = [], opening_hours = None\<rparr>"

definition ok_response :: "Place list \<Rightarrow> response outcome" where
  "ok_response rs = Resolved \<lparr>status = ''OK'', results = Some rs\<rparr>"

definition zero_results :: "response outcome" where
  "zero_results = Resolved \<lparr>status = ''ZERO_RESULTS'', results = Some []\<rparr>"

text \<open>The dashboard right after its location has been acquired.\<close>

definition located :: DashboardState where
  "located = DashboardState_init\<lparr>location_d := Some \<lparr>latitude = 1, longitude = 2\<rparr>\<rparr>"

text \<open>Sixteen provider records of which only the last one matches \<open>cafe\<close>.\<close>

definition sixteen :: "Place list" where
  "sixteen = replicate 15 (sample_place ''b'' ''Burger Shack'' ''1 Main St'')
             @ [sample_place ''c'' ''Sunrise Cafe'' ''2 Main St'']"

text \<open>
  A place whose name ends in a small e with acute accent (\<open>0xE9\<close>), and the search
  text \<open>CAF\<close> followed by the capital of that letter (\<open>0xC9\<close>).
\<close>

definition sunrise_accent :: Place where
  "sunrise_accent = sample_place ''s'' (''Sunrise Caf'' @ [CHR 0xE9]) ''2 Main St''"

definition CAFE_accent :: string where
  "CAFE_accent = ''CAF'' @ [CHR 0xC9]"

definition cafe_accent :: string where
  "cafe_accent = ''caf'' @ [CHR 0xE9]"

definition two_places :: "Place list" where
  "two_places = [sample_place ''b'' ''Burger Shack'' ''1 Main St'', sunrise_accent]"

section \<open>Properties\<close>

subsection \<open>Strings\<close>

lemma includes_str_sublist: "includes_str s q = sublist q s"
  by (induction s) (auto simp: sublist_Cons_right)

lemma dropWhile_all: "(\<forall>x\<in>set (dropWhile P q). P x) \<longleftrightarrow> (\<forall>x\<in>set q. P x)"
  by (induction q) auto

lemma trim_empty_iff: "trim q = [] \<longleftrightarrow> (\<forall>c\<in>set q. isWhiteSpace c)"
  by (simp add: trim_def dropWhile_all)

lemma isWhiteSpace_toLowerCase_char: "isWhiteSpace (toLowerCase_char c) = isWhiteSpace c"
  unfolding isWhiteSpace_def toLowerCase_char_def upperCase_letters_def lowerCase_letters_def
  by (auto split: option.splits if_splits)

lemma trim_toLowerCase_empty: "trim (toLowerCase q) = [] \<longleftrightarrow> trim q = []"
  by (simp add: trim_empty_iff toLowerCase_def isWhiteSpace_toLowerCase_char)

lemma trim_lower_cong:
  "toLowerCase q1 = toLowerCase q2 \<Longrightarrow> (trim q1 = []) = (trim q2 = [])"
  by (metis trim_toLowerCase_empty)

lemma place_matches_lower:
  "toLowerCase q1 = toLowerCase q2 \<Longrightarrow> place_matches q1 = place_matches q2"
  by (simp add: place_matches_def fun_eq_iff)

lemma trim_cafe: "trim ''cafe'' \<noteq> []"
  by (simp add: trim_def isWhiteSpace_def)

lemma sunrise_matches:
  "place_matches ''cafe'' (sample_place ''c'' ''Sunrise Cafe'' ''2 Main St'')"
  by (simp add: place_matches_def sample_place_def toLowerCase_def toLowerCase_char_def
      upperCase_letters_def lowerCase_letters_def)

lemma burger_no_match:
  "\<not> place_matches ''cafe'' (sample_place ''b'' ''Burger Shack'' ''1 Main St'')"
  by (simp add: place_matches_def sample_place_def toLowerCase_def toLowerCase_char_def
      upperCase_letters_def lowerCase_letters_def)

subsection \<open>The continuation of a query\<close>

lemma subseq_take: "subseq (take n xs) xs"
  by (metis prefix_imp_subseq take_is_prefix)

lemma subseq_filteredPlaces: "subseq (filteredPlaces q rs) rs"
  by (simp add: filteredPlaces_def)

lemma maps_resume_ok:
  "fetchNearbyPlaces_resume (Resolved \<lparr>status = ''OK'', results = Some rs\<rparr>) s =
     (s\<lparr>places := take 20 rs, loadingPlaces := False\<rparr>, [])"
  by (simp add: fetchNearbyPlaces_resume_def)

lemma dashboard_resume_ok:
  "searchNearbyPlaces_resume snap (Resolved \<lparr>status = ''OK'', results = Some rs\<rparr>) s =
     (s\<lparr>places_d := take 15 (filteredPlaces (searchQuery snap) rs), loading_d := False\<rparr>, [])"
  by (simp add: searchNearbyPlaces_resume_def)

lemma maps_resume_failed:
  "query_failed out \<Longrightarrow> places (fst (fetchNearbyPlaces_resume out s)) = places s"
  by (cases out) (auto simp: fetchNearbyPlaces_resume_def)

lemma dashboard_resume_failed:
  "query_failed out \<Longrightarrow> places_d (fst (searchNearbyPlaces_resume snap out s)) = places_d s"
  by (cases out) (auto simp: searchNearbyPlaces_resume_def)

lemma maps_resume_loading: "\<not> loadingPlaces (fst (fetchNearbyPlaces_resume out s))"
  by (cases out) (auto simp: fetchNearbyPlaces_resume_def split: option.splits)

lemma dashboard_resume_loading: "\<not> loading_d (fst (searchNearbyPlaces_resume snap out s))"
  by (cases out) (auto simp: searchNearbyPlaces_resume_def split: option.splits)

subsection \<open>Overlapping queries\<close>

text \<open>
  C1, as stated: when B's response arrives before A's, the final \<open>results\<close> is B's and
  A's stale response does not overwrite it. Neither screen numbers its requests or
  compares a response with the latest request, so on the map A's list replaces B's.
\<close>

theorem stale_response_overwrites_newer:
  "places (maps_race (0, 0, restaurant) (0, 0, cafe)
      (ok_response [sample_place ''a'' ''Joes Diner'' ''1 Main St''])
      (ok_response [sample_place ''b'' ''Sunrise Cafe'' ''2 Main St'']) MapsState_init)
     = [sample_place ''a'' ''Joes Diner'' ''1 Main St''] \<and>
   [sample_place ''a'' ''Joes Diner'' ''1 Main St'']
     \<noteq> take 20 [sample_place ''b'' ''Sunrise Cafe'' ''2 Main St'']"
  by (simp add: maps_race_def ok_response_def fetchNearbyPlaces_start_def
      fetchNearbyPlaces_resume_def MapsState_init_def sample_place_def)

text \<open>
  C1, amended: the response that arrives last wins. When A's response is successful the
  final \<open>results\<close> is A's list (truncated, and on the dashboard narrowed by the search
  text A was issued with), whatever B's response was; B's list stays only when A's
  query fails.
\<close>

theorem last_arrival_wins:
  "places (maps_race A B (ok_response rsA) respB s) = take 20 rsA \<and>
   places_d (dashboard_race snapA snapB (ok_response rsA) respB d)
     = take 15 (filteredPlaces (searchQuery snapA) rsA) \<and>
   (query_failed respA \<longrightarrow>
      places (maps_race A B respA (ok_response rsB) s) = take 20 rsB \<and>
      places_d (dashboard_race snapA snapB respA (ok_response rsB) d)
        = take 15 (filteredPlaces (searchQuery snapB) rsB))"
proof -
  obtain la lo ty la' lo' ty' where AB: "A = (la, lo, ty)" "B = (la', lo', ty')"
    by (metis prod_cases3)
  have 1: "places (maps_race A B (ok_response rsA) respB s) = take 20 rsA"
    by (simp add: AB maps_race_def ok_response_def maps_resume_ok)
  have 2: "places_d (dashboard_race snapA snapB (ok_response rsA) respB d)
     = take 15 (filteredPlaces (searchQuery snapA) rsA)"
    by (simp add: dashboard_race_def ok_response_def dashboard_resume_ok)
  have 3: "places (maps_race A B respA (ok_response rsB) s) = take 20 rsB"
    if "query_failed respA"
    using that by (simp add: AB maps_race_def ok_response_def maps_resume_ok maps_resume_failed)
  have 4: "places_d (dashboard_race snapA snapB respA (ok_response rsB) d)
        = take 15 (filteredPlaces (searchQuery snapB) rsB)"
    if "query_failed respA"
    using that
    by (simp add: dashboard_race_def ok_response_def dashboard_resume_ok dashboard_resume_failed)
  show ?thesis
    using 1 2 3 4 by (intro conjI impI)
qed

theorem last_arrival_wins_witness:
  "query_failed Rejected \<and>
   places (maps_race (0, 0, restaurant) (0, 0, cafe) Rejected
      (ok_response [sample_place ''b'' ''Sunrise Cafe'' ''2 Main St'']) MapsState_init)
     = [sample_place ''b'' ''Sunrise Cafe'' ''2 Main St'']"
  using last_arrival_wins [of "(0, 0, restaurant)" "(0, 0, cafe)" "[]" Rejected MapsState_init
      DashboardState_init DashboardState_init DashboardState_init Rejected
      "[sample_place ''b'' ''Sunrise Cafe'' ''2 Main St'']"]
  by simp

subsection \<open>Category change\<close>

lemma categoryPress_type:
  "location_d d = Some loc \<Longrightarrow>
   categoryPress c d =
     (d\<lparr>selectedCategory := c, loading_d := True\<rparr>,
      [Fetch \<lparr>req_lat = latitude loc, req_lng = longitude loc, req_radius = 5000,
              req_type = switch_type (selectedCategory d),
              req_key = GOOGLE_PLACES_API_KEY\<rparr>])"
  by (simp add: categoryPress_def searchNearbyPlaces_start_def)

lemma handleTypeChange_type:
  "location s = Some loc \<Longrightarrow>
   handleTypeChange ty s =
     (s\<lparr>selectedType := ty, loadingPlaces := True\<rparr>,
      [Fetch \<lparr>req_lat = latitude loc, req_lng = longitude loc, req_radius = 5000,
              req_type = type_token ty, req_key = GOOGLE_PLACES_API_KEY\<rparr>])"
  by (simp add: handleTypeChange_def fetchNearbyPlaces_start_def)

text \<open>
  C2: on a category change with \<open>location\<close> present the screen sets \<open>category\<close> and
  issues exactly one query whose category token is that of the newly selected
  category. The map's \<open>handleTypeChange\<close> passes the new type to the query
  (\<open>handleTypeChange_type\<close>). The dashboard's button calls \<open>searchNearbyPlaces\<close>, which
  reads \<open>selectedCategory\<close> from the render the button belongs to: with \<open>all\<close> selected,
  a press on \<open>cafe\<close> stores \<open>cafe\<close> and queries for \<open>restaurant,cafe,laundry\<close>
  (\<open>categoryPress_type\<close> gives the token of the previous category in general).
\<close>

theorem categoryPress_queries_previous_category:
  "categoryPress ''cafe'' located =
     (located\<lparr>selectedCategory := ''cafe'', loading_d := True\<rparr>,
      [Fetch \<lparr>req_lat = 1, req_lng = 2, req_radius = 5000,
              req_type = ''restaurant,cafe,laundry'',
              req_key = GOOGLE_PLACES_API_KEY\<rparr>])"
  by (simp add: categoryPress_def located_def DashboardState_init_def
      searchNearbyPlaces_start_def switch_type_def)

subsection \<open>Provider errors\<close>

text \<open>
  C3, as stated: after a response with a non-OK status such as \<open>ZERO_RESULTS\<close> the
  \<open>results\<close> are empty. The error branch does not call \<open>setPlaces\<close>: a list already on
  screen stays.
\<close>

theorem zero_results_keeps_places:
  "places (fst (fetchNearbyPlaces_resume zero_results
       (MapsState_init\<lparr>places := [sample_place ''a'' ''Joes Diner'' ''1 Main St'']\<rparr>)))
     = [sample_place ''a'' ''Joes Diner'' ''1 Main St''] \<and>
   [sample_place ''a'' ''Joes Diner'' ''1 Main St''] \<noteq> []"
  by (simp add: zero_results_def fetchNearbyPlaces_resume_def MapsState_init_def)

text \<open>
  C3, amended: after a response with a non-OK status \<open>results\<close> has the value it had
  before the query (so it is empty only if it was empty), an error alert is raised and
  \<open>loading\<close> is false; on both screens.
\<close>

theorem non_ok_status_alerts:
  "status data \<noteq> ''OK'' \<Longrightarrow>
   places (fst (fetchNearbyPlaces_resume (Resolved data) s)) = places s \<and>
   Alert ''Error'' ''Failed to fetch nearby places. Please check your API key.''
     \<in> set (snd (fetchNearbyPlaces_resume (Resolved data) s)) \<and>
   \<not> loadingPlaces (fst (fetchNearbyPlaces_resume (Resolved data) s)) \<and>
   places_d (fst (searchNearbyPlaces_resume snap (Resolved data) d)) = places_d d \<and>
   Alert ''Error'' ''Failed to search nearby places. Please check your API key.''
     \<in> set (snd (searchNearbyPlaces_resume snap (Resolved data) d)) \<and>
   \<not> loading_d (fst (searchNearbyPlaces_resume snap (Resolved data) d))"
  by (simp add: fetchNearbyPlaces_resume_def searchNearbyPlaces_resume_def)

theorem non_ok_status_alerts_witness:
  "status \<lparr>status = ''ZERO_RESULTS'', results = Some []\<rparr> \<noteq> ''OK'' \<and>
   places_d (fst (searchNearbyPlaces_resume located
       (Resolved \<lparr>status = ''ZERO_RESULTS'', results = Some []\<rparr>)
       (located\<lparr>places_d := sixteen\<rparr>))) = sixteen \<and>
   \<not> loading_d (fst (searchNearbyPlaces_resume located
       (Resolved \<lparr>status = ''ZERO_RESULTS'', results = Some []\<rparr>)
       (located\<lparr>places_d := sixteen\<rparr>)))"
  using non_ok_status_alerts [of "\<lparr>status = ''ZERO_RESULTS'', results = Some []\<rparr>"
      MapsState_init located "located\<lparr>places_d := sixteen\<rparr>"]
  by simp

text \<open>
  C10: a query that completes with a non-OK status or with a network or parse error
  leaves \<open>results\<close> as it was before the query, and the loading flag is false after
  completion on every path, success or failure; on both screens.
\<close>

theorem failed_query_keeps_places:
  "(query_failed out \<longrightarrow>
      places (fst (fetchNearbyPlaces_resume out s)) = places s \<and>
      places_d (fst (searchNearbyPlaces_resume snap out d)) = places_d d) \<and>
   \<not> loadingPlaces (fst (fetchNearbyPlaces_resume out s)) \<and>
   \<not> loading_d (fst (searchNearbyPlaces_resume snap out d))"
  using maps_resume_failed [of out s] dashboard_resume_failed [of out snap d]
    maps_resume_loading [of out s] dashboard_resume_loading [of snap out d]
  by (intro conjI impI)

theorem failed_query_keeps_places_witness:
  "query_failed Rejected \<and>
   places (fst (fetchNearbyPlaces_resume Rejected
       (MapsState_init\<lparr>places := sixteen, loadingPlaces := True\<rparr>))) = sixteen \<and>
   \<not> loadingPlaces (fst (fetchNearbyPlaces_resume Rejected
       (MapsState_init\<lparr>places := sixteen, loadingPlaces := True\<rparr>)))"
  using failed_query_keeps_places [of Rejected
      "MapsState_init\<lparr>places := sixteen, loadingPlaces := True\<rparr>"
      DashboardState_init DashboardState_init]
  by simp

subsection \<open>Truncation and the free-text filter\<close>

text \<open>
  C4, as stated: with a non-empty search text the dashboard shows the provider's
  results first capped at 15 and then narrowed by the text match. The code filters the
  whole response and caps afterwards: of sixteen records whose only match is the last,
  it shows that record, where capping first would show nothing.
\<close>

theorem filter_runs_before_cap:
  "places_d (fst (searchNearbyPlaces_resume (located\<lparr>searchQuery := ''cafe''\<rparr>)
       (ok_response sixteen) (located\<lparr>searchQuery := ''cafe''\<rparr>)))
     = [sample_place ''c'' ''Sunrise Cafe'' ''2 Main St''] \<and>
   filter (place_matches ''cafe'') (take 15 sixteen) = []"
  by (simp add: ok_response_def dashboard_resume_ok sixteen_def filteredPlaces_def
      sunrise_matches burger_no_match trim_cafe)

text \<open>
  C4, amended: for a successful dashboard query whose search text is not blank, the
  displayed list is the provider's ordered results first narrowed by the
  case-insensitive substring match and then capped at 15.
\<close>

theorem dashboard_filter_then_cap:
  "trim (searchQuery snap) \<noteq> [] \<Longrightarrow>
   places_d (fst (searchNearbyPlaces_resume snap (ok_response rs) d))
     = take 15 (filter (place_matches (searchQuery snap)) rs)"
  by (simp add: ok_response_def dashboard_resume_ok filteredPlaces_def)

theorem dashboard_filter_then_cap_witness:
  "trim (searchQuery (located\<lparr>searchQuery := ''cafe''\<rparr>)) \<noteq> [] \<and>
   places_d (fst (searchNearbyPlaces_resume (located\<lparr>searchQuery := ''cafe''\<rparr>)
       (ok_response sixteen) located))
     = [sample_place ''c'' ''Sunrise Cafe'' ''2 Main St'']"
  using dashboard_filter_then_cap [of "located\<lparr>searchQuery := ''cafe''\<rparr>" sixteen located]
  by (simp add: sixteen_def sunrise_matches burger_no_match trim_cafe)

text \<open>
  C6, as stated: on a successful response the list bound to the UI is the first N
  records of the response, N = 15 on the dashboard. With the search text \<open>cafe\<close> and
  sixteen records whose only match is the last, the dashboard shows that sixteenth
  record, which is not among the first fifteen.
\<close>

theorem dashboard_list_not_first_records:
  "places_d (fst (searchNearbyPlaces_resume (located\<lparr>searchQuery := ''cafe''\<rparr>)
       (ok_response sixteen) located))
     = [sample_place ''c'' ''Sunrise Cafe'' ''2 Main St''] \<and>
   take 15 sixteen = replicate 15 (sample_place ''b'' ''Burger Shack'' ''1 Main St'') \<and>
   [sample_place ''c'' ''Sunrise Cafe'' ''2 Main St'']
     \<noteq> replicate 15 (sample_place ''b'' ''Burger Shack'' ''1 Main St'')"
proof -
  have "length [sample_place ''c'' ''Sunrise Cafe'' ''2 Main St'']
     \<noteq> length (replicate 15 (sample_place ''b'' ''Burger Shack'' ''1 Main St''))"
    by simp
  then have "[sample_place ''c'' ''Sunrise Cafe'' ''2 Main St'']
     \<noteq> replicate 15 (sample_place ''b'' ''Burger Shack'' ''1 Main St'')"
    by (rule contrapos_nn) (erule arg_cong)
  then show ?thesis
    by (simp add: ok_response_def dashboard_resume_ok sixteen_def filteredPlaces_def
        sunrise_matches burger_no_match trim_cafe)
qed

text \<open>
  C6, amended: on a successful response the list bound to the UI is cut to N records
  in the provider's order, so it never has more than N entries. On the map it is the
  first 20 records of the response. On the dashboard it is the first 15 records of
  the response when the search text is blank, and otherwise the first 15 of the
  records of the response that match the search text.
\<close>

theorem result_list_truncated:
  "places (fst (fetchNearbyPlaces_resume (ok_response rs) s)) = take 20 rs \<and>
   length (places (fst (fetchNearbyPlaces_resume (ok_response rs) s))) \<le> 20 \<and>
   places_d (fst (searchNearbyPlaces_resume snap (ok_response rs) d))
     = take 15 (if trim (searchQuery snap) = [] then rs
                else filter (place_matches (searchQuery snap)) rs) \<and>
   length (places_d (fst (searchNearbyPlaces_resume snap (ok_response rs) d))) \<le> 15 \<and>
   subseq (places_d (fst (searchNearbyPlaces_resume snap (ok_response rs) d))) rs"
proof -
  have "subseq (take 15 (filteredPlaces (searchQuery snap) rs)) rs"
    using subseq_take subseq_filteredPlaces subseq_order.trans by blast
  then show ?thesis
    by (simp add: ok_response_def maps_resume_ok dashboard_resume_ok filteredPlaces_def)
qed

theorem result_list_truncated_witness:
  "places_d (fst (searchNearbyPlaces_resume located
       (ok_response (replicate 17 (sample_place ''b'' ''Burger Shack'' ''1 Main St''))) located))
     = replicate 15 (sample_place ''b'' ''Burger Shack'' ''1 Main St'') \<and>
   places (fst (fetchNearbyPlaces_resume
       (ok_response (replicate 23 (sample_place ''b'' ''Burger Shack'' ''1 Main St'')))
       MapsState_init))
     = replicate 20 (sample_place ''b'' ''Burger Shack'' ''1 Main St'')"
proof -
  have 1: "places_d (fst (searchNearbyPlaces_resume located
       (ok_response (replicate 17 (sample_place ''b'' ''Burger Shack'' ''1 Main St''))) located))
     = replicate 15 (sample_place ''b'' ''Burger Shack'' ''1 Main St'')"
    using result_list_truncated
      [of "replicate 17 (sample_place ''b'' ''Burger Shack'' ''1 Main St'')"
        MapsState_init located located, THEN conjunct2, THEN conjunct2, THEN conjunct1]
    by (simp add: located_def DashboardState_init_def trim_def)
  have 2: "places (fst (fetchNearbyPlaces_resume
       (ok_response (replicate 23 (sample_place ''b'' ''Burger Shack'' ''1 Main St'')))
       MapsState_init))
     = replicate 20 (sample_place ''b'' ''Burger Shack'' ''1 Main St'')"
    using result_list_truncated
      [of "replicate 23 (sample_place ''b'' ''Burger Shack'' ''1 Main St'')"
        MapsState_init located located, THEN conjunct1]
    by simp
  from 1 2 show ?thesis by (rule conjI)
qed

text \<open>
  C7, as stated: the free-text filter is a case-insensitive substring match against
  name or address. A text of two spaces is contained in neither the name nor the
  address of the sample place, yet the filter keeps the place: a text that is blank
  after trimming switches the filter off.
\<close>

theorem blank_text_keeps_list:
  "filteredPlaces ''  '' [sample_place ''c'' ''Sunrise Cafe'' ''2 Main St'']
     = [sample_place ''c'' ''Sunrise Cafe'' ''2 Main St''] \<and>
   filter (place_matches ''  '') [sample_place ''c'' ''Sunrise Cafe'' ''2 Main St''] = []"
  by (simp add: filteredPlaces_def trim_def isWhiteSpace_def place_matches_def
      sample_place_def toLowerCase_def toLowerCase_char_def
      upperCase_letters_def lowerCase_letters_def)

text \<open>
  C7, amended: for a search text that is not blank after trimming, the free-text filter
  keeps the places whose lower-cased name or lower-cased address contains the
  lower-cased text, so that neither the case of the text nor that of the name and
  address matters; a blank text (empty or white space only) leaves the list as it is.
  Search texts that differ only in case, such as \<open>Cafe\<close> and \<open>cafe\<close>, select the same
  places; the empty text leaves the list as it is; filtering twice is filtering once.
\<close>

theorem free_text_filter:
  "(trim q \<noteq> [] \<longrightarrow>
      filteredPlaces q rs =
        filter (\<lambda>p. sublist (toLowerCase q) (toLowerCase (name p)) \<or>
                    sublist (toLowerCase q) (toLowerCase (vicinity p))) rs) \<and>
   (trim b = [] \<longrightarrow> filteredPlaces b rs = rs) \<and>
   (toLowerCase q1 = toLowerCase q2 \<longrightarrow> filteredPlaces q1 rs = filteredPlaces q2 rs) \<and>
   (toLowerCase (name p1) = toLowerCase (name p2) \<longrightarrow>
    toLowerCase (vicinity p1) = toLowerCase (vicinity p2) \<longrightarrow>
      place_matches q p1 = place_matches q p2) \<and>
   filteredPlaces ''Cafe'' rs = filteredPlaces ''cafe'' rs \<and>
   filteredPlaces [] rs = rs \<and>
   filteredPlaces q (filteredPlaces q rs) = filteredPlaces q rs"
proof -
  have a: "filteredPlaces q rs =
        filter (\<lambda>p. sublist (toLowerCase q) (toLowerCase (name p)) \<or>
                    sublist (toLowerCase q) (toLowerCase (vicinity p))) rs"
    if "trim q \<noteq> []"
    using that
    by (simp add: filteredPlaces_def place_matches_def [abs_def] includes_str_sublist)
  have a': "filteredPlaces b rs = rs" if "trim b = []"
    using that by (simp add: filteredPlaces_def)
  have b: "filteredPlaces q1 rs = filteredPlaces q2 rs"
    if "toLowerCase q1 = toLowerCase q2" for q1 q2
    using trim_lower_cong [OF that] place_matches_lower [OF that]
    by (simp add: filteredPlaces_def)
  have b': "place_matches q p1 = place_matches q p2"
    if "toLowerCase (name p1) = toLowerCase (name p2)"
      and "toLowerCase (vicinity p1) = toLowerCase (vicinity p2)"
    using that by (simp add: place_matches_def)
  have "toLowerCase ''Cafe'' = toLowerCase ''cafe''"
    by (simp add: toLowerCase_def toLowerCase_char_def
      upperCase_letters_def lowerCase_letters_def)
  then have c: "filteredPlaces ''Cafe'' rs = filteredPlaces ''cafe'' rs"
    by (rule b)
  have d: "filteredPlaces [] rs = rs"
    by (simp add: filteredPlaces_def trim_def)
  have e: "filteredPlaces q (filteredPlaces q rs) = filteredPlaces q rs"
    by (simp add: filteredPlaces_def)
  show ?thesis
    using a a' b [of q1 q2] b' c d e by (intro conjI impI)
qed

theorem free_text_filter_witness:
  "trim cafe_accent \<noteq> [] \<and> trim ''  '' = [] \<and>
   toLowerCase CAFE_accent = toLowerCase cafe_accent \<and>
   filteredPlaces cafe_accent two_places =
     filter (\<lambda>p. sublist (toLowerCase cafe_accent) (toLowerCase (name p)) \<or>
                 sublist (toLowerCase cafe_accent) (toLowerCase (vicinity p))) two_places \<and>
   filteredPlaces ''  '' two_places = two_places \<and>
   filteredPlaces CAFE_accent two_places = [sunrise_accent]"
proof -
  note t = free_text_filter [where q = cafe_accent and rs = two_places and b = "''  ''"
      and ?q1.0 = CAFE_accent and ?q2.0 = cafe_accent]
  have n: "trim cafe_accent \<noteq> []"
    by (simp add: cafe_accent_def trim_def isWhiteSpace_def)
  have w: "trim ''  '' = []"
    by (simp add: trim_def isWhiteSpace_def)
  have l: "toLowerCase CAFE_accent = toLowerCase cafe_accent"
    by (simp add: CAFE_accent_def cafe_accent_def toLowerCase_def toLowerCase_char_def
        upperCase_letters_def lowerCase_letters_def)
  have f: "filteredPlaces cafe_accent two_places = [sunrise_accent]"
    using n
    by (simp add: filteredPlaces_def two_places_def sunrise_accent_def cafe_accent_def
        place_matches_def sample_place_def toLowerCase_def toLowerCase_char_def
        upperCase_letters_def lowerCase_letters_def)
  have 1: "filteredPlaces cafe_accent two_places =
     filter (\<lambda>p. sublist (toLowerCase cafe_accent) (toLowerCase (name p)) \<or>
                 sublist (toLowerCase cafe_accent) (toLowerCase (vicinity p))) two_places"
    using t [THEN conjunct1] n by (rule mp)
  have 2: "filteredPlaces ''  '' two_places = two_places"
    using t [THEN conjunct2, THEN conjunct1] w by (rule mp)
  have "filteredPlaces CAFE_accent two_places = filteredPlaces cafe_accent two_places"
    using t [THEN conjunct2, THEN conjunct2, THEN conjunct1] l by (rule mp)
  with f have 3: "filteredPlaces CAFE_accent two_places = [sunrise_accent]"
    by simp
  from n w l 1 2 3 show ?thesis by (intro conjI)
qed

subsection \<open>Category tokens\<close>

text \<open>
  C5: the \<open>type\<close> parameter of a query is a function of the selected category only.
  On the dashboard \<open>all\<close> gives the comma-joined tokens of all the other categories,
  \<open>restaurant,cafe,laundry\<close>, and \<open>restaurant\<close>, \<open>cafe\<close> and \<open>laundry\<close> give themselves;
  on the map the selected type is its own token.
\<close>

theorem category_token_mapping:
  "join '','' (remove1 ''all'' categories) = ''restaurant,cafe,laundry'' \<and>
   (selectedCategory snap \<in> set categories \<longrightarrow> location_d snap = Some loc \<longrightarrow>
      snd (searchNearbyPlaces_start snap d) =
        [Fetch \<lparr>req_lat = latitude loc, req_lng = longitude loc, req_radius = 5000,
                req_type = (if selectedCategory snap = ''all''
                            then join '','' (remove1 ''all'' categories)
                            else selectedCategory snap),
                req_key = GOOGLE_PLACES_API_KEY\<rparr>]) \<and>
   snd (fetchNearbyPlaces_start la lo ty s) =
     [Fetch \<lparr>req_lat = la, req_lng = lo, req_radius = 5000,
             req_type = type_token ty, req_key = GOOGLE_PLACES_API_KEY\<rparr>] \<and>
   type_token restaurant = ''restaurant'' \<and> type_token cafe = ''cafe''"
proof -
  have j: "join '','' (remove1 ''all'' categories) = ''restaurant,cafe,laundry''"
    by (simp add: categories_def)
  have sw: "switch_type c = (if c = ''all'' then ''restaurant,cafe,laundry'' else c)"
    if "c \<in> set categories" for c
    using that by (auto simp: categories_def switch_type_def)
  show ?thesis
    by (simp add: j sw searchNearbyPlaces_start_def fetchNearbyPlaces_start_def)
qed

theorem category_token_mapping_witness:
  "selectedCategory (located\<lparr>selectedCategory := ''laundry''\<rparr>) \<in> set categories \<and>
   location_d (located\<lparr>selectedCategory := ''laundry''\<rparr>)
     = Some \<lparr>latitude = 1, longitude = 2\<rparr> \<and>
   snd (searchNearbyPlaces_start (located\<lparr>selectedCategory := ''laundry''\<rparr>) located) =
     [Fetch \<lparr>req_lat = 1, req_lng = 2, req_radius = 5000, req_type = ''laundry'',
             req_key = GOOGLE_PLACES_API_KEY\<rparr>]"
  using category_token_mapping [of "located\<lparr>selectedCategory := ''laundry''\<rparr>"
      "\<lparr>latitude = 1, longitude = 2\<rparr>" located]
  by (simp add: located_def DashboardState_init_def categories_def)

subsection \<open>Search submission\<close>

text \<open>
  C8, as stated: a submission issues a query if and only if \<open>searchText\<close> is non-empty
  or the category is not \<open>all\<close>. The handler tests the trimmed text: with a text of two
  spaces and category \<open>all\<close> nothing is issued and nothing changes.
\<close>

theorem blank_search_text_is_ignored:
  "searchQuery (located\<lparr>searchQuery := ''  ''\<rparr>) \<noteq> [] \<and>
   handleSearch (located\<lparr>searchQuery := ''  ''\<rparr>) = (located\<lparr>searchQuery := ''  ''\<rparr>, [])"
  by (simp add: handleSearch_def located_def DashboardState_init_def trim_def isWhiteSpace_def)

lemma handleSearch_no_break_space:
  "handleSearch (located\<lparr>searchQuery := [CHR 0xA0]\<rparr>) = (located\<lparr>searchQuery := [CHR 0xA0]\<rparr>, [])"
  by (simp add: handleSearch_def located_def DashboardState_init_def trim_def isWhiteSpace_def)

text \<open>
  C8, amended: a submission issues a query, exactly one, if and only if the trimmed
  \<open>searchText\<close> is non-empty or the category is not \<open>all\<close>, and a location is present.
  When neither holds of the text and the category, the submission changes no state and
  issues no request; when one holds and no location is present, it changes no state,
  issues no request and raises the alert that location is required.
\<close>

theorem handleSearch_guard:
  "((\<exists>r. snd (handleSearch d) = [Fetch r]) \<longleftrightarrow>
      (trim (searchQuery d) \<noteq> [] \<or> selectedCategory d \<noteq> ''all'') \<and> location_d d \<noteq> None) \<and>
   (filter is_Fetch (snd (handleSearch d)) = [] \<or> (\<exists>r. snd (handleSearch d) = [Fetch r])) \<and>
   (\<not> (trim (searchQuery d) \<noteq> [] \<or> selectedCategory d \<noteq> ''all'') \<longrightarrow>
      handleSearch d = (d, [])) \<and>
   ((trim (searchQuery d) \<noteq> [] \<or> selectedCategory d \<noteq> ''all'') \<longrightarrow> location_d d = None \<longrightarrow>
      handleSearch d =
        (d, [Alert ''Location required''
               ''Please allow location access to search nearby places'']))"
  by (cases "location_d d") (auto simp: handleSearch_def searchNearbyPlaces_start_def)

theorem handleSearch_guard_witness:
  "trim (searchQuery (located\<lparr>searchQuery := ''cafe''\<rparr>)) \<noteq> [] \<and>
   location_d (located\<lparr>searchQuery := ''cafe''\<rparr>) \<noteq> None \<and>
   (\<exists>r. snd (handleSearch (located\<lparr>searchQuery := ''cafe''\<rparr>)) = [Fetch r])"
  using handleSearch_guard [of "located\<lparr>searchQuery := ''cafe''\<rparr>"]
  by (simp add: trim_cafe located_def)

subsection \<open>Permission denied\<close>

lemma mountEffect_denied:
  "st \<noteq> granted \<Longrightarrow>
   mountEffect ty (Resolved st) pos s =
     (s\<lparr>errorMsg := Some ''Permission to access location was denied'', loading := False\<rparr>, [])"
  by (simp add: mountEffect_def)

lemma render_denied:
  "render (s\<lparr>errorMsg := Some ''Permission to access location was denied'',
             loading := False\<rparr>)
     = ErrorView ''Permission to access location was denied'' ''Try Again''"
  by (simp add: render_def truthy_def)

lemma render_no_location: "location s = None \<Longrightarrow> \<not> is_MainView (render s)"
  by (simp add: render_def)

lemma maps_step_denied:
  assumes "permission_denied e" and "location s = None"
  shows "location (fst (maps_step e s)) = None \<and> filter is_Fetch (snd (maps_step e s)) = []"
proof (cases e)
  case (EffectRun perm pos)
  with assms show ?thesis
    by (cases perm) (auto simp: mountEffect_def)
next
  case RetryPress
  with assms show ?thesis by (simp add: retryPress_def)
next
  case (TypeChange ty)
  with assms show ?thesis by (simp add: render_no_location)
next
  case (Recenter pos)
  with assms show ?thesis by (simp add: render_no_location)
qed

lemma maps_run_denied:
  "list_all permission_denied es \<Longrightarrow> location s = None \<Longrightarrow>
   location (fst (maps_run es s)) = None \<and> filter is_Fetch (snd (maps_run es s)) = []"
proof (induction es arbitrary: s)
  case Nil
  then show ?case by simp
next
  case (Cons e es)
  from Cons.prems have e: "permission_denied e" and es: "list_all permission_denied es"
    by simp_all
  from maps_step_denied [OF e Cons.prems(2)]
  have 1: "location (fst (maps_step e s)) = None"
    and 2: "filter is_Fetch (snd (maps_step e s)) = []" by simp_all
  from Cons.IH [OF es 1] 2 show ?case
    by (simp add: split_beta Let_def)
qed

lemma maps_run_snoc:
  "fst (maps_run (es @ [e]) s) = fst (maps_step e (fst (maps_run es s)))"
  by (induction es arbitrary: s) (simp_all add: split_beta Let_def)

text \<open>
  C9: when location permission is denied the map screen shows its error view, with the
  text \<open>Permission to access location was denied\<close> (which contains \<open>denied\<close>) and the
  \<open>Try Again\<close> button, and no places query is issued: not by the effect that was
  refused, and not anywhere in a run from the initial state in which every permission
  request is refused, whatever is pressed in between.
\<close>

theorem permission_denied_error_state:
  "(st \<noteq> granted \<longrightarrow>
      render (fst (mountEffect ty (Resolved st) pos s))
        = ErrorView ''Permission to access location was denied'' ''Try Again'' \<and>
      snd (mountEffect ty (Resolved st) pos s) = []) \<and>
   sublist ''denied'' ''Permission to access location was denied'' \<and>
   (list_all permission_denied es \<longrightarrow>
      filter is_Fetch (snd (maps_run es MapsState_init)) = []) \<and>
   (list_all permission_denied es \<longrightarrow> st \<noteq> granted \<longrightarrow>
      render (fst (maps_run (es @ [EffectRun (Resolved st) pos]) MapsState_init))
        = ErrorView ''Permission to access location was denied'' ''Try Again'')"
proof -
  have a: "render (fst (mountEffect ty (Resolved st) pos s))
        = ErrorView ''Permission to access location was denied'' ''Try Again''"
    if "st \<noteq> granted" for s ty
    using that by (simp add: mountEffect_denied render_denied)
  have b: "snd (mountEffect ty (Resolved st) pos s) = []" if "st \<noteq> granted"
    using that by (simp add: mountEffect_denied)
  have c: "sublist ''denied'' ''Permission to access location was denied''"
    unfolding includes_str_sublist [symmetric] by simp
  have d: "filter is_Fetch (snd (maps_run es MapsState_init)) = []"
    if "list_all permission_denied es"
    using maps_run_denied [OF that, of MapsState_init] by (simp add: MapsState_init_def)
  have e: "render (fst (maps_run (es @ [EffectRun (Resolved st) pos]) MapsState_init))
        = ErrorView ''Permission to access location was denied'' ''Try Again''"
    if "st \<noteq> granted"
    using a [OF that] by (simp add: maps_run_snoc)
  show ?thesis
    using a [of ty s] b c d e by (intro conjI impI)
qed

theorem permission_denied_error_state_witness:
  "denied \<noteq> granted \<and>
   list_all permission_denied [EffectRun (Resolved denied) Rejected, RetryPress] \<and>
   render (fst (maps_run
       ([EffectRun (Resolved denied) Rejected, RetryPress] @
        [EffectRun (Resolved denied) Rejected]) MapsState_init))
     = ErrorView ''Permission to access location was denied'' ''Try Again'' \<and>
   filter is_Fetch
     (snd (maps_run [EffectRun (Resolved denied) Rejected, RetryPress] MapsState_init)) = []"
proof -
  have n: "denied \<noteq> granted" by simp
  have l: "list_all permission_denied [EffectRun (Resolved denied) Rejected, RetryPress]"
    by simp
  note t = permission_denied_error_state [where st = denied and pos = Rejected
      and s = MapsState_init and ty = restaurant
      and es = "[EffectRun (Resolved denied) Rejected, RetryPress]"]
  from t l have 1: "filter is_Fetch
     (snd (maps_run [EffectRun (Resolved denied) Rejected, RetryPress] MapsState_init)) = []"
    by (elim conjE) (rule mp)
  from t l n have 2: "render (fst (maps_run
       ([EffectRun (Resolved denied) Rejected, RetryPress] @
        [EffectRun (Resolved denied) Rejected]) MapsState_init))
     = ErrorView ''Permission to access location was denied'' ''Try Again''"
    by (elim conjE) (erule mp [OF mp])
  from n l 1 2 show ?thesis by (intro conjI)
qed

end
